theory Spec2Isabelle
  imports Main
begin

section \<open>Strings of the host language\<close>

text \<open>
  A string of the client is a sequence of UTF-16 code units. \<open>str\<close> embeds an ASCII
  literal. \<open>trim\<close> is \<^verbatim>\<open>String.prototype.trim\<close>: it strips the ECMAScript white space
  and line terminator code points from both ends.
\<close>

type_synonym jsstring = "nat list"

definition str :: "string \<Rightarrow> jsstring" where
  "str s = map of_char s"

definition isWhiteSpace :: "nat \<Rightarrow> bool" where
  "isWhiteSpace u =
     (u = 9 \<or> u = 10 \<or> u = 11 \<or> u = 12 \<or> u = 13 \<or> u = 32 \<or> u = 160 \<or> u = 5760
      \<or> (8192 \<le> u \<and> u \<le> 8202) \<or> u = 8232 \<or> u = 8233 \<or> u = 8239 \<or> u = 8287
      \<or> u = 12288 \<or> u = 65279)"

definition trim :: "jsstring \<Rightarrow> jsstring" where
  "trim s = rev (dropWhile isWhiteSpace (rev (dropWhile isWhiteSpace s)))"

section \<open>Errors and promises\<close>

text \<open>
  An error value is either the runtime's \<^verbatim>\<open>TypeError\<close> (raised when a member of
  \<^verbatim>\<open>null\<close> is read), a gRPC service error with its optional \<^verbatim>\<open>details\<close>, or any
  other \<^verbatim>\<open>Error\<close>. Every error has a \<^verbatim>\<open>message\<close>.
\<close>

datatype error =
    TypeError jsstring
  | ServiceError "jsstring option" jsstring
  | OtherError jsstring

fun details :: "error \<Rightarrow> jsstring option" where
  "details (TypeError m) = None"
| "details (ServiceError d m) = d"
| "details (OtherError m) = None"

fun message :: "error \<Rightarrow> jsstring" where
  "message (TypeError m) = m"
| "message (ServiceError d m) = m"
| "message (OtherError m) = m"

text \<open>\<^verbatim>\<open>err.details || err.message\<close>: the details when defined and not the empty string.\<close>

definition details_or_message :: "error \<Rightarrow> jsstring" where
  "details_or_message err =
     (case details err of
        None \<Rightarrow> message err
      | Some d \<Rightarrow> if d = [] then message err else d)"

text \<open>
  Reading the member \<open>m\<close> of the \<^verbatim>\<open>null\<close> transport handle. The wording of the message
  belongs to the runtime.
\<close>

definition nullMember :: "string \<Rightarrow> error" where
  "nullMember m = TypeError (str ''Cannot read property '' @ str m @ str '' of null'')"

definition undefinedMember :: "string \<Rightarrow> error" where
  "undefinedMember m =
     TypeError (str ''Cannot read property '' @ str m @ str '' of undefined'')"

datatype 'a promise = Resolved 'a | Rejected error

section \<open>Wire messages\<close>

datatype OutputType = STDERR | STDOUT

datatype Progress = Progress (progress_getMessage: jsstring)

datatype Output = Output (output_getOutputType: OutputType) (output_getMessage: jsstring)

datatype Cancelled =
  Cancelled (cancelled_getTask: jsstring) (cancelled_getProjectDir: jsstring)
    (cancelled_getMessage: jsstring)

text \<open>
  The replies of the two streams, by their \<^verbatim>\<open>getKindCase()\<close>. The result of a build
  discovery carries the build, which the generated getter may return as undefined.
\<close>

datatype 'b GetBuildReply =
    GB_KIND_NOT_SET
  | GB_PROGRESS Progress
  | GB_OUTPUT Output
  | GB_CANCELLED Cancelled
  | GB_GET_BUILD_RESULT "'b option"

datatype RunTaskReply =
    RT_KIND_NOT_SET
  | RT_PROGRESS Progress
  | RT_OUTPUT Output
  | RT_CANCELLED Cancelled

record RunTaskRequest =
  req_projectDir :: jsstring
  req_task :: jsstring
  req_javaDebug :: bool
  req_javaDebugPort :: "nat option"
  req_argsList :: "jsstring list"

record TaskDefinition =
  script :: jsstring
  javaDebug :: bool

record CancelRunTaskReply =
  crt_getMessage :: jsstring
  crt_getTaskRunning :: bool

text \<open>
  A server stream delivers its \<^verbatim>\<open>data\<close> frames in order and then one terminal event.
  A unary call answers through a callback with an error, or else with a reply (which the
  callback's type allows to be undefined).
\<close>

datatype terminal = on_end | on_error error

type_synonym 'f stream = "'f list \<times> terminal"

type_synonym 'r callback = "error option \<times> 'r option"

section \<open>The client and its collaborators\<close>

text \<open>
  A transport handle is an object identity. Every call the client makes on a
  collaborator (the server process, the status bar item, the logger, the connected
  emitter, the transport, the task registry, the caller's output sink) is recorded, in
  order, in \<open>trace\<close>. Messages of \<^verbatim>\<open>localize\<close> are taken from the default bundle.
\<close>

type_synonym transport = nat

datatype effect =
    Server_onReady
  | Server_onStop
  | Server_start
  | Server_showRestartMessage
  | StatusBar_text jsstring
  | StatusBar_show
  | StatusBar_hide
  | Logger_debug jsstring
  | Logger_info jsstring
  | Logger_error jsstring
  | New_GrpcClient transport
  | WaitForReady transport nat
  | Close transport
  | OnConnect_fire
  | OnConnect_dispose
  | Rpc_getBuild transport jsstring
  | Rpc_runTask transport RunTaskRequest
  | Rpc_cancelRunTask transport jsstring jsstring
  | Rpc_cancelRunTasks transport
  | Rpc_cancelGetBuilds transport
  | OnOutput Output
  | HandleCancelledTask jsstring jsstring

record GradleTasksClient =
  connectDeadline :: nat
  grpcClient :: "transport option"
  connectTries :: nat
  maxConnectTries :: nat
  trace :: "effect list"

definition emit :: "effect \<Rightarrow> GradleTasksClient \<Rightarrow> GradleTasksClient" where
  "emit e c = c\<lparr>trace := trace c @ [e]\<rparr>"

text \<open>The constructor: field initialisers, then the subscriptions and the server start.\<close>

definition constructor :: GradleTasksClient where
  "constructor =
     (let c = \<lparr>connectDeadline = 3, grpcClient = None, connectTries = 0,
                maxConnectTries = 5, trace = []\<rparr>;
          c = emit Server_onReady c;
          c = emit Server_onStop c
      in emit Server_start c)"

section \<open>Connecting\<close>

text \<open>
  What the environment does with one connect attempt: the transport constructor throws,
  or it returns a handle and \<^verbatim>\<open>waitForReady\<close> calls back with an error or without. The
  callback may run before anything else happens to the client (\<open>ReadyCallback\<close>), or
  it is still outstanding when the next handler runs (\<open>CallbackPending\<close>) and then
  arrives as a separate invocation of \<open>handleClientReady\<close>.
  \<open>env 0\<close> answers the next attempt, \<open>env 1\<close> the one after it, and so on.
\<close>

datatype attempt =
    ConstructorThrows error
  | ReadyCallback transport "error option"
  | CallbackPending transport

type_synonym connect_env = "nat \<Rightarrow> attempt"

definition later :: "connect_env \<Rightarrow> connect_env" where
  "later env = (\<lambda>n. env (Suc n))"

function connectToServer :: "connect_env \<Rightarrow> GradleTasksClient \<Rightarrow> GradleTasksClient"
  and handleClientReady ::
    "connect_env \<Rightarrow> error option \<Rightarrow> GradleTasksClient \<Rightarrow> GradleTasksClient"
  and handleConnectError ::
    "connect_env \<Rightarrow> error \<Rightarrow> GradleTasksClient \<Rightarrow> GradleTasksClient"
where
  "connectToServer env c =
     (case env 0 of
        ConstructorThrows err \<Rightarrow>
          (let c = emit (Logger_error
                           (str ''Unable to construct the gRPC client: '' @ message err)) c
           in emit StatusBar_hide c)
      | ReadyCallback t r \<Rightarrow>
          (let c = c\<lparr>grpcClient := Some t\<rparr>;
               c = emit (New_GrpcClient t) c;
               c = emit (WaitForReady t (connectDeadline c)) c
           in handleClientReady (later env) r c)
      | CallbackPending t \<Rightarrow>
          (let c = c\<lparr>grpcClient := Some t\<rparr>;
               c = emit (New_GrpcClient t) c
           in emit (WaitForReady t (connectDeadline c)) c))"
| "handleClientReady env r c =
     (case r of
        Some err \<Rightarrow> handleConnectError env err c
      | None \<Rightarrow>
          (let c = emit (Logger_info (str ''Gradle client connected to server'')) c
           in emit OnConnect_fire c))"
| "handleConnectError env e c =
     (if connectTries c < maxConnectTries c
      then (let c = c\<lparr>connectTries := connectTries c + 1\<rparr>;
                c = (case grpcClient c of Some t \<Rightarrow> emit (Close t) c | None \<Rightarrow> c)
            in connectToServer env c)
      else (let c = emit (Logger_error
                            (str ''Error connecting to gradle server: '' @ message e)) c
            in emit Server_showRestartMessage c))"
  by pat_completeness auto
termination
  by (relation "measure (\<lambda>x. case x of
          Inl (env, c) \<Rightarrow> 3 * (maxConnectTries c - connectTries c) + 2
        | Inr (Inl (env, r, c)) \<Rightarrow> 3 * (maxConnectTries c - connectTries c) + 1
        | Inr (Inr (env, e, c)) \<Rightarrow> 3 * (maxConnectTries c - connectTries c))")
     (auto simp: emit_def split: option.splits)

text \<open>The server process announces that it is ready: the client starts to connect.\<close>

definition handleServerReady :: "connect_env \<Rightarrow> GradleTasksClient \<Rightarrow> GradleTasksClient" where
  "handleServerReady env c =
     (let c = emit (StatusBar_text (str ''$(sync~spin) Gradle: Connecting'')) c;
          c = emit StatusBar_show c;
          c = emit (Logger_debug (str ''Gradle client connecting to server'')) c
      in connectToServer env c)"

definition handleServerStop :: "GradleTasksClient \<Rightarrow> GradleTasksClient" where
  "handleServerStop c = c"

section \<open>Handlers of stream frames\<close>

definition handleRunTaskCancelled :: "Cancelled \<Rightarrow> GradleTasksClient \<Rightarrow> GradleTasksClient" where
  "handleRunTaskCancelled cancelled c =
     (let c = emit (Logger_info (str ''Task cancelled: '' @ cancelled_getMessage cancelled)) c
      in emit (HandleCancelledTask (cancelled_getTask cancelled)
                 (cancelled_getProjectDir cancelled)) c)"

definition handleGetBuildCancelled :: "Cancelled \<Rightarrow> GradleTasksClient \<Rightarrow> GradleTasksClient" where
  "handleGetBuildCancelled cancelled c =
     emit (Logger_info (str ''Get build cancelled: '' @ cancelled_getMessage cancelled)) c"

definition handleProgress :: "Progress \<Rightarrow> GradleTasksClient \<Rightarrow> GradleTasksClient" where
  "handleProgress progress c =
     (let messageStr = trim (progress_getMessage progress)
      in if messageStr \<noteq> []
         then emit (StatusBar_text (str ''$(sync~spin) Gradle: '' @ messageStr)) c
         else c)"

definition handleOutput :: "Output \<Rightarrow> GradleTasksClient \<Rightarrow> GradleTasksClient" where
  "handleOutput output c =
     (let logMessage = trim (output_getMessage output)
      in if logMessage \<noteq> []
         then (case output_getOutputType output of
                 STDERR \<Rightarrow> emit (Logger_error logMessage) c
               | STDOUT \<Rightarrow> emit (Logger_info logMessage) c)
         else c)"

section \<open>Streaming calls\<close>

text \<open>
  The \<^verbatim>\<open>data\<close> listener of \<^verbatim>\<open>getBuild\<close>; \<open>build\<close> is the local variable the listener
  assigns and the \<^verbatim>\<open>end\<close> listener resolves with.
\<close>

definition getBuild_onData ::
  "'b GetBuildReply \<Rightarrow> 'b option \<times> GradleTasksClient \<Rightarrow> 'b option \<times> GradleTasksClient" where
  "getBuild_onData getBuildReply s =
     (case s of (build, c) \<Rightarrow>
        (case getBuildReply of
           GB_PROGRESS progress \<Rightarrow> (build, handleProgress progress c)
         | GB_OUTPUT output \<Rightarrow> (build, handleOutput output c)
         | GB_CANCELLED cancelled \<Rightarrow> (build, handleGetBuildCancelled cancelled c)
         | GB_GET_BUILD_RESULT b \<Rightarrow> (b, c)
         | GB_KIND_NOT_SET \<Rightarrow> (build, c)))"

text \<open>
  \<^verbatim>\<open>getBuild\<close>, with the stream the server answers with. The stream is opened before the
  \<^verbatim>\<open>try\<close>; the \<^verbatim>\<open>catch\<close> logs a stream error and falls through, the \<^verbatim>\<open>finally\<close> hides
  the status bar item.
\<close>

definition getBuild ::
  "jsstring \<Rightarrow> 'b GetBuildReply stream \<Rightarrow> GradleTasksClient
     \<Rightarrow> 'b option promise \<times> GradleTasksClient" where
  "getBuild projectFolder getBuildStream c =
     (let c = emit (StatusBar_text (str ''$(sync~spin) Gradle: Refreshing Tasks'')) c;
          c = emit StatusBar_show c
      in case grpcClient c of
           None \<Rightarrow> (Rejected (nullMember ''getBuild''), c)
         | Some t \<Rightarrow>
             (let c = emit (Rpc_getBuild t projectFolder) c;
                  s = foldl (\<lambda>s f. getBuild_onData f s) (None, c) (fst getBuildStream);
                  build = fst s;
                  c = snd s
              in case snd getBuildStream of
                   on_end \<Rightarrow> (Resolved build, emit StatusBar_hide c)
                 | on_error err \<Rightarrow>
                     (let c = emit (Logger_error
                                      (str ''Error getting build for '' @ projectFolder
                                         @ str '': '' @ details_or_message err)) c
                      in (Resolved None, emit StatusBar_hide c))))"

text \<open>The \<^verbatim>\<open>data\<close> listener of \<^verbatim>\<open>runTask\<close>; \<^verbatim>\<open>onOutput\<close> is the caller's sink.\<close>

definition runTask_onData :: "RunTaskReply \<Rightarrow> GradleTasksClient \<Rightarrow> GradleTasksClient" where
  "runTask_onData runTaskReply c =
     (case runTaskReply of
        RT_PROGRESS progress \<Rightarrow> handleProgress progress c
      | RT_OUTPUT output \<Rightarrow> emit (OnOutput output) c
      | RT_CANCELLED cancelled \<Rightarrow> handleRunTaskCancelled cancelled c
      | RT_KIND_NOT_SET \<Rightarrow> c)"

definition runTask ::
  "jsstring \<Rightarrow> TaskDefinition \<Rightarrow> jsstring list \<Rightarrow> nat option \<Rightarrow> RunTaskReply stream
     \<Rightarrow> GradleTasksClient \<Rightarrow> unit promise \<times> GradleTasksClient" where
  "runTask projectFolder task args javaDebugPort runTaskStream c =
     (let c = emit StatusBar_show c;
          request = \<lparr>req_projectDir = projectFolder, req_task = script task,
                     req_javaDebug = javaDebug task, req_javaDebugPort = javaDebugPort,
                     req_argsList = args\<rparr>
      in case grpcClient c of
           None \<Rightarrow> (Rejected (nullMember ''runTask''), c)
         | Some t \<Rightarrow>
             (let c = emit (Rpc_runTask t request) c;
                  c = foldl (\<lambda>c f. runTask_onData f c) c (fst runTaskStream);
                  c = (case snd runTaskStream of
                         on_end \<Rightarrow> emit (Logger_info (str ''Completed task '' @ script task)) c
                       | on_error err \<Rightarrow>
                           emit (Logger_error
                                   (str ''Error running task: '' @ details_or_message err)) c)
              in (Resolved (), emit StatusBar_hide c)))"

section \<open>Cancellation calls\<close>

text \<open>
  Each unary call builds its promise inside the \<^verbatim>\<open>try\<close>: a throw of the executor, an
  error of the callback and a throw while the reply is read all reach the \<^verbatim>\<open>catch\<close>,
  which logs, and the call resolves.
\<close>

definition cancelRunTask ::
  "jsstring \<Rightarrow> jsstring \<Rightarrow> CancelRunTaskReply callback \<Rightarrow> GradleTasksClient
     \<Rightarrow> unit promise \<times> GradleTasksClient" where
  "cancelRunTask projectFolder task cb c =
     (let awaited =
            (case grpcClient c of
               None \<Rightarrow> (Inl (nullMember ''cancelRunTask''), c)
             | Some t \<Rightarrow>
                 (let c = emit (Rpc_cancelRunTask t projectFolder task) c
                  in case fst cb of
                       Some err \<Rightarrow> (Inl err, c)
                     | None \<Rightarrow>
                         (case snd cb of
                            None \<Rightarrow> (Inl (undefinedMember ''getMessage''), c)
                          | Some cancelRunTaskReply \<Rightarrow> (Inr cancelRunTaskReply, c))));
          c = snd awaited
      in case fst awaited of
           Inr cancelRunTaskReply \<Rightarrow>
             (let c = emit (Logger_debug (crt_getMessage cancelRunTaskReply)) c;
                  c = (if \<not> crt_getTaskRunning cancelRunTaskReply
                       then emit (HandleCancelledTask task projectFolder) c
                       else c)
              in (Resolved (), c))
         | Inl err \<Rightarrow>
             (Resolved (),
              emit (Logger_error
                      (str ''Error cancelling running task: '' @ details_or_message err)) c))"

definition cancelRunTasks ::
  "jsstring callback \<Rightarrow> GradleTasksClient \<Rightarrow> unit promise \<times> GradleTasksClient" where
  "cancelRunTasks cb c =
     (let awaited =
            (case grpcClient c of
               None \<Rightarrow> (Inl (nullMember ''cancelRunTasks''), c)
             | Some t \<Rightarrow>
                 (let c = emit (Rpc_cancelRunTasks t) c
                  in case fst cb of
                       Some err \<Rightarrow> (Inl err, c)
                     | None \<Rightarrow>
                         (case snd cb of
                            None \<Rightarrow> (Inl (undefinedMember ''getMessage''), c)
                          | Some replyMessage \<Rightarrow> (Inr replyMessage, c))));
          c = snd awaited
      in case fst awaited of
           Inr replyMessage \<Rightarrow> (Resolved (), emit (Logger_debug replyMessage) c)
         | Inl err \<Rightarrow>
             (Resolved (),
              emit (Logger_error
                      (str ''Error cancelling running tasks: '' @ details_or_message err)) c))"

definition cancelGetBuilds ::
  "jsstring callback \<Rightarrow> GradleTasksClient \<Rightarrow> unit promise \<times> GradleTasksClient" where
  "cancelGetBuilds cb c =
     (let awaited =
            (case grpcClient c of
               None \<Rightarrow> (Inl (nullMember ''cancelGetBuilds''), c)
             | Some t \<Rightarrow>
                 (let c = emit (Rpc_cancelGetBuilds t) c
                  in case fst cb of
                       Some err \<Rightarrow> (Inl err, c)
                     | None \<Rightarrow>
                         (case snd cb of
                            None \<Rightarrow> (Inl (undefinedMember ''getMessage''), c)
                          | Some replyMessage \<Rightarrow> (Inr replyMessage, c))));
          c = snd awaited
      in case fst awaited of
           Inr replyMessage \<Rightarrow> (Resolved (), emit (Logger_debug replyMessage) c)
         | Inl err \<Rightarrow>
             (Resolved (),
              emit (Logger_error
                      (str ''Error cancelling get builds: '' @ details_or_message err)) c))"

section \<open>Disposal\<close>

definition dispose :: "GradleTasksClient \<Rightarrow> GradleTasksClient" where
  "dispose c =
     (let c = (case grpcClient c of Some t \<Rightarrow> emit (Close t) c | None \<Rightarrow> c)
      in emit OnConnect_dispose c)"

section \<open>Histories of the client\<close>

text \<open>
  Everything that can run on a client after its construction: the two server
  subscriptions, the readiness callback and the public methods, each with what the
  environment answers.
\<close>

datatype 'b call =
    HandleServerReady connect_env
  | HandleServerStop
  | HandleClientReady connect_env "error option"
  | GetBuild jsstring "'b GetBuildReply stream"
  | RunTask jsstring TaskDefinition "jsstring list" "nat option" "RunTaskReply stream"
  | CancelRunTask jsstring jsstring "CancelRunTaskReply callback"
  | CancelRunTasks "jsstring callback"
  | CancelGetBuilds "jsstring callback"
  | Dispose

fun invoke :: "'b call \<Rightarrow> GradleTasksClient \<Rightarrow> GradleTasksClient" where
  "invoke (HandleServerReady env) c = handleServerReady env c"
| "invoke HandleServerStop c = handleServerStop c"
| "invoke (HandleClientReady env r) c = handleClientReady env r c"
| "invoke (GetBuild projectFolder s) c = snd (getBuild projectFolder s c)"
| "invoke (RunTask projectFolder task args port s) c = snd (runTask projectFolder task args port s c)"
| "invoke (CancelRunTask projectFolder task cb) c = snd (cancelRunTask projectFolder task cb c)"
| "invoke (CancelRunTasks cb) c = snd (cancelRunTasks cb c)"
| "invoke (CancelGetBuilds cb) c = snd (cancelGetBuilds cb c)"
| "invoke Dispose c = dispose c"

definition history :: "'b call list \<Rightarrow> GradleTasksClient \<Rightarrow> GradleTasksClient" where
  "history calls c = foldl (\<lambda>c k. invoke k c) c calls"

text \<open>Observers of the trace.\<close>

definition occurrences :: "effect \<Rightarrow> GradleTasksClient \<Rightarrow> nat" where
  "occurrences e c = count_list (trace c) e"

fun isConnectAttempt :: "effect \<Rightarrow> bool" where
  "isConnectAttempt (New_GrpcClient t) = True"
| "isConnectAttempt e = False"

definition connectAttempts :: "GradleTasksClient \<Rightarrow> nat" where
  "connectAttempts c = length (filter isConnectAttempt (trace c))"

fun isLog :: "effect \<Rightarrow> bool" where
  "isLog (Logger_debug m) = True"
| "isLog (Logger_info m) = True"
| "isLog (Logger_error m) = True"
| "isLog e = False"

text \<open>
  Environments: one in which every connect attempt gets its handle and then fails to
  become ready, and one in which the first attempt succeeds. \<open>connected\<close> is a client
  after a successful connect; \<open>unreachable\<close> refuses every attempt at the deadline.
\<close>

definition failing :: "(nat \<Rightarrow> transport) \<Rightarrow> (nat \<Rightarrow> error) \<Rightarrow> connect_env" where
  "failing t e = (\<lambda>n. ReadyCallback (t n) (Some (e n)))"

definition ready :: "transport \<Rightarrow> connect_env" where
  "ready t = (\<lambda>n. ReadyCallback t None)"

definition connected :: GradleTasksClient where
  "connected = handleServerReady (ready 7) constructor"

definition unreachable :: connect_env where
  "unreachable = failing id (\<lambda>n. OtherError (str ''Failed to connect before the deadline''))"

text \<open>An environment in which the transport constructor throws at every attempt.\<close>

definition throwing :: connect_env where
  "throwing = (\<lambda>n. ConstructorThrows (OtherError (str ''Invalid target'')))"

declare connectToServer.simps [simp del]
declare handleClientReady.simps [simp del]
declare handleConnectError.simps [simp del]

section \<open>Basic facts\<close>

lemma connectTries_emit [simp]: "connectTries (emit e c) = connectTries c"
  by (simp add: emit_def)

lemma maxConnectTries_emit [simp]: "maxConnectTries (emit e c) = maxConnectTries c"
  by (simp add: emit_def)

lemma grpcClient_emit [simp]: "grpcClient (emit e c) = grpcClient c"
  by (simp add: emit_def)

lemma connectDeadline_emit [simp]: "connectDeadline (emit e c) = connectDeadline c"
  by (simp add: emit_def)

lemma trace_emit [simp]: "trace (emit e c) = trace c @ [e]"
  by (simp add: emit_def)


lemma handleProgress_fields [simp]:
  "grpcClient (handleProgress p c) = grpcClient c"
  "connectTries (handleProgress p c) = connectTries c"
  "maxConnectTries (handleProgress p c) = maxConnectTries c"
  "connectDeadline (handleProgress p c) = connectDeadline c"
  by (simp_all add: handleProgress_def Let_def)

lemma handleOutput_fields [simp]:
  "grpcClient (handleOutput out c) = grpcClient c"
  "connectTries (handleOutput out c) = connectTries c"
  "maxConnectTries (handleOutput out c) = maxConnectTries c"
  "connectDeadline (handleOutput out c) = connectDeadline c"
  by (simp_all add: handleOutput_def Let_def split: OutputType.splits)

lemma handleGetBuildCancelled_fields [simp]:
  "grpcClient (handleGetBuildCancelled x c) = grpcClient c"
  "connectTries (handleGetBuildCancelled x c) = connectTries c"
  "maxConnectTries (handleGetBuildCancelled x c) = maxConnectTries c"
  "connectDeadline (handleGetBuildCancelled x c) = connectDeadline c"
  by (simp_all add: handleGetBuildCancelled_def)

lemma handleRunTaskCancelled_fields [simp]:
  "grpcClient (handleRunTaskCancelled x c) = grpcClient c"
  "connectTries (handleRunTaskCancelled x c) = connectTries c"
  "maxConnectTries (handleRunTaskCancelled x c) = maxConnectTries c"
  "connectDeadline (handleRunTaskCancelled x c) = connectDeadline c"
  by (simp_all add: handleRunTaskCancelled_def Let_def)

lemma getBuild_onData_fields [simp]:
  "grpcClient (snd (getBuild_onData f s)) = grpcClient (snd s)"
  "connectTries (snd (getBuild_onData f s)) = connectTries (snd s)"
  "maxConnectTries (snd (getBuild_onData f s)) = maxConnectTries (snd s)"
  "connectDeadline (snd (getBuild_onData f s)) = connectDeadline (snd s)"
  by (simp_all add: getBuild_onData_def split: prod.splits GetBuildReply.splits)

lemma runTask_onData_fields [simp]:
  "grpcClient (runTask_onData f c) = grpcClient c"
  "connectTries (runTask_onData f c) = connectTries c"
  "maxConnectTries (runTask_onData f c) = maxConnectTries c"
  "connectDeadline (runTask_onData f c) = connectDeadline c"
  by (simp_all add: runTask_onData_def split: RunTaskReply.splits)

lemma getBuild_frames_fields:
  "grpcClient (snd (foldl (\<lambda>s f. getBuild_onData f s) s fs)) = grpcClient (snd s)
   \<and> connectTries (snd (foldl (\<lambda>s f. getBuild_onData f s) s fs)) = connectTries (snd s)
   \<and> maxConnectTries (snd (foldl (\<lambda>s f. getBuild_onData f s) s fs)) = maxConnectTries (snd s)
   \<and> connectDeadline (snd (foldl (\<lambda>s f. getBuild_onData f s) s fs)) = connectDeadline (snd s)"
  by (induction fs arbitrary: s) simp_all

lemma runTask_frames_fields:
  "grpcClient (foldl (\<lambda>c f. runTask_onData f c) c fs) = grpcClient c
   \<and> connectTries (foldl (\<lambda>c f. runTask_onData f c) c fs) = connectTries c
   \<and> maxConnectTries (foldl (\<lambda>c f. runTask_onData f c) c fs) = maxConnectTries c
   \<and> connectDeadline (foldl (\<lambda>c f. runTask_onData f c) c fs) = connectDeadline c"
  by (induction fs arbitrary: c) simp_all

text \<open>The fixtures, evaluated.\<close>

lemma constructor_fields:
  "grpcClient constructor = None"
  "connectTries constructor = 0"
  "maxConnectTries constructor = 5"
  "connectDeadline constructor = 3"
  "trace constructor = [Server_onReady, Server_onStop, Server_start]"
  by (simp_all add: constructor_def)

lemma connected_fields:
  "grpcClient connected = Some 7"
  "connectTries connected = 0"
  "maxConnectTries connected = 5"
  "trace connected =
     [Server_onReady, Server_onStop, Server_start,
      StatusBar_text (str ''$(sync~spin) Gradle: Connecting''), StatusBar_show,
      Logger_debug (str ''Gradle client connecting to server''),
      New_GrpcClient 7, WaitForReady 7 3,
      Logger_info (str ''Gradle client connected to server''), OnConnect_fire]"
  by (simp_all add: connected_def ready_def handleServerReady_def connectToServer.simps
        handleClientReady.simps constructor_def Let_def)

section \<open>Whitespace-only messages\<close>

lemma trim_empty_iff: "trim s = [] \<longleftrightarrow> (\<forall>u\<in>set s. isWhiteSpace u)"
proof
  assume "trim s = []"
  then have "dropWhile isWhiteSpace (rev (dropWhile isWhiteSpace s)) = []"
    by (simp add: trim_def)
  then have "\<forall>u\<in>set (dropWhile isWhiteSpace s). isWhiteSpace u"
    by simp
  then have "dropWhile isWhiteSpace s = []"
    using hd_dropWhile [of isWhiteSpace s] hd_in_set [of "dropWhile isWhiteSpace s"] by blast
  then show "\<forall>u\<in>set s. isWhiteSpace u"
    by simp
next
  assume "\<forall>u\<in>set s. isWhiteSpace u"
  then show "trim s = []"
    by (auto simp: trim_def dest: set_dropWhileD)
qed

text \<open>
  C5, as amended. A Progress frame of either stream, or an Output frame of a build
  discovery stream, whose message consists only of white space causes no status update
  and no log entry: the client and all its sinks stay as they were. When the message has
  some other character it is trimmed and forwarded: a Progress message to the status bar
  text, an Output message of a build discovery stream to the logger, at error severity
  for STDERR and at info severity otherwise. An Output frame of a task stream is handed
  to the caller's sink as it is, whatever its message, and causes no status update and
  no log entry.
\<close>

theorem whitespace_messages_suppressed:
  "((\<forall>u\<in>set (progress_getMessage p). isWhiteSpace u) \<longrightarrow>
        handleProgress p c = c
        \<and> getBuild_onData (GB_PROGRESS p) (b, c) = (b, c)
        \<and> runTask_onData (RT_PROGRESS p) c = c)
   \<and> ((\<forall>u\<in>set (output_getMessage out). isWhiteSpace u) \<longrightarrow>
        handleOutput out c = c
        \<and> getBuild_onData (GB_OUTPUT out) (b, c) = (b, c))
   \<and> ((\<exists>u\<in>set (progress_getMessage p). \<not> isWhiteSpace u) \<longrightarrow>
        handleProgress p c =
          emit (StatusBar_text (str ''$(sync~spin) Gradle: '' @ trim (progress_getMessage p))) c
        \<and> getBuild_onData (GB_PROGRESS p) (b, c) = (b, handleProgress p c)
        \<and> runTask_onData (RT_PROGRESS p) c = handleProgress p c)
   \<and> ((\<exists>u\<in>set (output_getMessage out). \<not> isWhiteSpace u) \<longrightarrow>
        handleOutput out c =
          (if output_getOutputType out = STDERR
           then emit (Logger_error (trim (output_getMessage out))) c
           else emit (Logger_info (trim (output_getMessage out))) c)
        \<and> getBuild_onData (GB_OUTPUT out) (b, c) = (b, handleOutput out c))
   \<and> trace (runTask_onData (RT_OUTPUT out) c) = trace c @ [OnOutput out]"
  by (auto simp: handleProgress_def handleOutput_def getBuild_onData_def runTask_onData_def
        trim_empty_iff Let_def split: OutputType.splits)

theorem whitespace_messages_suppressed_witness:
  "handleProgress (Progress [32, 9, 10]) connected = connected
   \<and> runTask_onData (RT_PROGRESS (Progress [32, 9, 10])) connected = connected
   \<and> handleOutput (Output STDERR [13, 10, 32]) connected = connected
   \<and> getBuild_onData (GB_OUTPUT (Output STDERR [13, 10, 32])) (Some (1 :: nat), connected)
       = (Some 1, connected)
   \<and> handleProgress (Progress [32, 65, 32]) connected =
       emit (StatusBar_text (str ''$(sync~spin) Gradle: '' @ [65])) connected
   \<and> handleOutput (Output STDERR [66, 32, 67, 10]) connected =
       emit (Logger_error [66, 32, 67]) connected"
proof -
  have blank: "\<forall>u\<in>set (progress_getMessage (Progress [32, 9, 10])). isWhiteSpace u"
    "\<forall>u\<in>set (output_getMessage (Output STDERR [13, 10, 32])). isWhiteSpace u"
    by (simp_all add: isWhiteSpace_def)
  have inked: "\<exists>u\<in>set (progress_getMessage (Progress [32, 65, 32])). \<not> isWhiteSpace u"
    "\<exists>u\<in>set (output_getMessage (Output STDERR [66, 32, 67, 10])). \<not> isWhiteSpace u"
    by (simp_all add: isWhiteSpace_def)
  have trimmed: "trim (progress_getMessage (Progress [32, 65, 32])) = [65]"
    "trim (output_getMessage (Output STDERR [66, 32, 67, 10])) = [66, 32, 67]"
    "output_getOutputType (Output STDERR [66, 32, 67, 10]) = STDERR"
    by (simp_all add: trim_def isWhiteSpace_def)
  have "handleProgress (Progress [32, 9, 10]) connected = connected
      \<and> runTask_onData (RT_PROGRESS (Progress [32, 9, 10])) connected = connected
      \<and> handleOutput (Output STDERR [13, 10, 32]) connected = connected
      \<and> getBuild_onData (GB_OUTPUT (Output STDERR [13, 10, 32])) (Some (1 :: nat), connected)
          = (Some 1, connected)"
    using blank
      whitespace_messages_suppressed [of "Progress [32, 9, 10]" connected "Some (1 :: nat)"
        "Output STDERR [13, 10, 32]"]
    by blast
  moreover have "handleProgress (Progress [32, 65, 32]) connected =
        emit (StatusBar_text (str ''$(sync~spin) Gradle: ''
                @ trim (progress_getMessage (Progress [32, 65, 32])))) connected
      \<and> handleOutput (Output STDERR [66, 32, 67, 10]) connected =
        (if output_getOutputType (Output STDERR [66, 32, 67, 10]) = STDERR
         then emit (Logger_error (trim (output_getMessage (Output STDERR [66, 32, 67, 10]))))
                connected
         else emit (Logger_info (trim (output_getMessage (Output STDERR [66, 32, 67, 10]))))
                connected)"
    using inked
      whitespace_messages_suppressed [of "Progress [32, 65, 32]" connected "Some (1 :: nat)"
        "Output STDERR [66, 32, 67, 10]"]
    by blast
  ultimately show ?thesis
    by (simp only: trimmed if_True simp_thms)
qed

theorem task_output_not_logged_counterexample:
  "trim [32, 98, 111, 111, 109, 10] = [98, 111, 111, 109]
   \<and> trace (runTask_onData (RT_OUTPUT (Output STDERR [32, 98, 111, 111, 109, 10])) connected)
       = trace connected @ [OnOutput (Output STDERR [32, 98, 111, 111, 109, 10])]
   \<and> Logger_error [98, 111, 111, 109] \<notin>
       set (trace (runTask_onData (RT_OUTPUT (Output STDERR [32, 98, 111, 111, 109, 10]))
                     connected))"
  by (simp add: runTask_onData_def trim_def isWhiteSpace_def connected_fields)

section \<open>The value a build discovery resolves with\<close>

lemma getBuild_frames_no_result:
  "\<forall>b. GB_GET_BUILD_RESULT b \<notin> set fs \<Longrightarrow>
     fst (foldl (\<lambda>s f. getBuild_onData f s) s fs) = fst s"
proof (induction fs arbitrary: s)
  case Nil
  show ?case by simp
next
  case (Cons f fs)
  have "fst (getBuild_onData f s) = fst s"
    using Cons.prems by (cases f) (auto simp: getBuild_onData_def split: prod.splits)
  with Cons show ?case by simp
qed

lemma getBuild_onData_result [simp]:
  "fst (getBuild_onData (GB_GET_BUILD_RESULT b) s) = b"
  by (simp add: getBuild_onData_def split: prod.splits)

lemma getBuild_frames_last_result:
  assumes "\<forall>b'. GB_GET_BUILD_RESULT b' \<notin> set post"
  shows "fst (foldl (\<lambda>s f. getBuild_onData f s) s (pre @ GB_GET_BUILD_RESULT b # post)) = b"
  using getBuild_frames_no_result [OF assms] by simp

text \<open>
  C6. A \<open>getBuild\<close> call on a held transport whose stream ends normally resolves with
  the build of the (last) result frame the stream delivered, and with the void value
  \<open>None\<close> when the stream delivered no result frame.
\<close>

theorem getBuild_resolves_on_end:
  assumes "grpcClient c = Some t"
  shows "((\<forall>b'. GB_GET_BUILD_RESULT b' \<notin> set fs) \<longrightarrow>
            fst (getBuild projectFolder (fs, on_end) c) = Resolved None)
         \<and> ((\<forall>b'. GB_GET_BUILD_RESULT b' \<notin> set post) \<longrightarrow>
            fst (getBuild projectFolder (pre @ GB_GET_BUILD_RESULT b # post, on_end) c)
              = Resolved b)"
  using assms
  by (simp add: getBuild_def Let_def getBuild_frames_no_result getBuild_frames_last_result)

theorem getBuild_resolves_on_end_witness:
  "grpcClient connected = Some 7
   \<and> fst (getBuild (str ''/p'')
          ([GB_PROGRESS (Progress (str ''A'')), GB_OUTPUT (Output STDOUT (str ''B''))], on_end)
          connected) = (Resolved None :: nat option promise)
   \<and> fst (getBuild (str ''/p'')
          ([GB_PROGRESS (Progress (str ''A'')), GB_OUTPUT (Output STDOUT (str ''B'')),
            GB_GET_BUILD_RESULT (Some 42)], on_end)
          connected) = Resolved (Some (42 :: nat))"
  using getBuild_resolves_on_end [where c = connected and t = 7
      and fs = "[GB_PROGRESS (Progress (str ''A'')), GB_OUTPUT (Output STDOUT (str ''B''))]"
      and post = "[]" and projectFolder = "str ''/p''"
      and pre = "[GB_PROGRESS (Progress (str ''A'')), GB_OUTPUT (Output STDOUT (str ''B''))]"
      and b = "Some (42 :: nat)"]
  by (simp add: connected_fields)

section \<open>Stream errors\<close>

text \<open>
  C3, as amended. When the stream of a \<open>getBuild\<close> or \<open>runTask\<close> call on a held
  transport terminates with an error, the call catches it: it writes one entry at error
  severity that carries the error's details when they are defined and not empty, and
  its message otherwise, hides the status bar item, and resolves with the void value.
\<close>

theorem stream_error_is_caught:
  assumes "grpcClient c = Some t"
  shows "fst (getBuild projectFolder (fs, on_error err) c) = Resolved None
         \<and> fst (runTask projectFolder task args port (rs, on_error err) c) = Resolved ()
         \<and> (\<exists>pre. trace (snd (getBuild projectFolder (fs, on_error err) c)) =
                pre @ [Logger_error (str ''Error getting build for '' @ projectFolder
                                       @ str '': '' @ details_or_message err),
                       StatusBar_hide])
         \<and> (\<exists>pre. trace (snd (runTask projectFolder task args port (rs, on_error err) c)) =
                pre @ [Logger_error (str ''Error running task: '' @ details_or_message err),
                       StatusBar_hide])
         \<and> (\<forall>d. details err = Some d \<and> d \<noteq> [] \<longrightarrow> details_or_message err = d)
         \<and> (details err = None \<or> details err = Some [] \<longrightarrow>
              details_or_message err = message err)"
  using assms
  by (auto simp: getBuild_def runTask_def Let_def details_or_message_def)

theorem stream_error_is_caught_witness:
  "grpcClient connected = Some 7
   \<and> fst (getBuild [47] ([GB_PROGRESS (Progress [65])], on_error (ServiceError (Some [100]) [109]))
          connected) = (Resolved None :: nat option promise)
   \<and> fst (runTask [47] \<lparr>script = [98], javaDebug = False\<rparr> [] None
          ([RT_PROGRESS (Progress [65])], on_error (ServiceError (Some [100]) [109])) connected)
       = Resolved ()
   \<and> details_or_message (ServiceError (Some [100]) [109]) = [100]
   \<and> details_or_message (ServiceError (Some []) [109]) = [109]"
proof -
  have h: "grpcClient connected = Some 7"
    by (simp add: connected_fields)
  show ?thesis
    using h
      stream_error_is_caught [OF h, where projectFolder = "[47]"
        and fs = "[GB_PROGRESS (Progress [65]) :: nat GetBuildReply]"
        and err = "ServiceError (Some [100]) [109]"
        and task = "\<lparr>script = [98], javaDebug = False\<rparr>" and args = "[]" and port = None
        and rs = "[RT_PROGRESS (Progress [65])]"]
      stream_error_is_caught [OF h, where projectFolder = "[47]"
        and fs = "[GB_PROGRESS (Progress [65]) :: nat GetBuildReply]"
        and err = "ServiceError (Some []) [109]"
        and task = "\<lparr>script = [98], javaDebug = False\<rparr>" and args = "[]" and port = None
        and rs = "[RT_PROGRESS (Progress [65])]"]
    by simp
qed

theorem stream_error_counterexample:
  "fst (getBuild (str ''/p'')
         ([], on_error (ServiceError (Some (str ''unavailable'')) (str ''14 UNAVAILABLE'')))
         connected) = (Resolved None :: nat option promise)
   \<and> fst (getBuild (str ''/p'')
         ([], on_error (ServiceError (Some (str ''unavailable'')) (str ''14 UNAVAILABLE'')))
         connected)
       \<noteq> (Rejected (ServiceError (Some (str ''unavailable'')) (str ''14 UNAVAILABLE''))
            :: nat option promise)"
  by (simp add: getBuild_def Let_def connected_fields)

section \<open>The refreshing indicator\<close>

lemma getBuild_onData_trace:
  "\<exists>mid. trace (snd (getBuild_onData f s)) = trace (snd s) @ mid
         \<and> StatusBar_show \<notin> set mid \<and> StatusBar_hide \<notin> set mid"
  by (cases f)
     (auto simp: getBuild_onData_def handleProgress_def handleOutput_def
        handleGetBuildCancelled_def Let_def split: prod.splits OutputType.splits)

lemma getBuild_frames_trace:
  "\<exists>mid. trace (snd (foldl (\<lambda>s f. getBuild_onData f s) s fs)) = trace (snd s) @ mid
         \<and> StatusBar_show \<notin> set mid \<and> StatusBar_hide \<notin> set mid"
proof (induction fs arbitrary: s)
  case Nil
  show ?case by simp
next
  case (Cons f fs)
  obtain m1 where m1: "trace (snd (getBuild_onData f s)) = trace (snd s) @ m1"
    "StatusBar_show \<notin> set m1" "StatusBar_hide \<notin> set m1"
    using getBuild_onData_trace by blast
  obtain m2 where m2:
    "trace (snd (foldl (\<lambda>s f. getBuild_onData f s) (getBuild_onData f s) fs))
       = trace (snd (getBuild_onData f s)) @ m2"
    "StatusBar_show \<notin> set m2" "StatusBar_hide \<notin> set m2"
    using Cons.IH by blast
  have "trace (snd (foldl (\<lambda>s f. getBuild_onData f s) s (f # fs))) = trace (snd s) @ (m1 @ m2)"
    using m1 m2 by simp
  moreover have "StatusBar_show \<notin> set (m1 @ m2)" "StatusBar_hide \<notin> set (m1 @ m2)"
    using m1 m2 by simp_all
  ultimately show ?case by blast
qed

lemma getBuild_trace_shape:
  assumes "grpcClient c = Some t"
  shows "\<exists>mid. trace (snd (getBuild projectFolder s c)) =
             trace c @ [StatusBar_text (str ''$(sync~spin) Gradle: Refreshing Tasks''),
                        StatusBar_show, Rpc_getBuild t projectFolder] @ mid @ [StatusBar_hide]
           \<and> StatusBar_show \<notin> set mid \<and> StatusBar_hide \<notin> set mid"
proof -
  obtain fs tm where s: "s = (fs, tm)"
    by (cases s)
  define c0 where "c0 = emit (Rpc_getBuild t projectFolder)
      (emit StatusBar_show
         (emit (StatusBar_text (str ''$(sync~spin) Gradle: Refreshing Tasks'')) c))"
  define s1 where "s1 = foldl (\<lambda>s f. getBuild_onData f s) (None :: 'a option, c0) fs"
  obtain mid where mid: "trace (snd s1) = trace c0 @ mid"
    "StatusBar_show \<notin> set mid" "StatusBar_hide \<notin> set mid"
    unfolding s1_def using getBuild_frames_trace [of "(None, c0)" fs] by auto
  show ?thesis
  proof (cases tm)
    case on_end
    have "snd (getBuild projectFolder s c) = emit StatusBar_hide (snd s1)"
      using assms by (simp add: getBuild_def Let_def s on_end s1_def c0_def)
    then show ?thesis
      using mid by (simp add: c0_def)
  next
    case (on_error err)
    define l where "l = Logger_error (str ''Error getting build for '' @ projectFolder
                                     @ str '': '' @ details_or_message err)"
    have "snd (getBuild projectFolder s c) = emit StatusBar_hide (emit l (snd s1))"
      using assms by (simp add: getBuild_def Let_def s on_error s1_def c0_def l_def)
    then have "trace (snd (getBuild projectFolder s c)) =
        trace c @ [StatusBar_text (str ''$(sync~spin) Gradle: Refreshing Tasks''),
                   StatusBar_show, Rpc_getBuild t projectFolder] @ (mid @ [l]) @ [StatusBar_hide]"
      using mid by (simp add: c0_def)
    moreover have "StatusBar_show \<notin> set (mid @ [l])" "StatusBar_hide \<notin> set (mid @ [l])"
      using mid by (simp_all add: l_def)
    ultimately show ?thesis by blast
  qed
qed

lemma getBuild_fields:
  "grpcClient (snd (getBuild projectFolder s c)) = grpcClient c
   \<and> connectTries (snd (getBuild projectFolder s c)) = connectTries c
   \<and> maxConnectTries (snd (getBuild projectFolder s c)) = maxConnectTries c
   \<and> connectDeadline (snd (getBuild projectFolder s c)) = connectDeadline c"
  by (simp add: getBuild_def Let_def getBuild_frames_fields split: option.splits terminal.splits)

lemma runTask_fields:
  "grpcClient (snd (runTask projectFolder task args port rs c)) = grpcClient c
   \<and> connectTries (snd (runTask projectFolder task args port rs c)) = connectTries c
   \<and> maxConnectTries (snd (runTask projectFolder task args port rs c)) = maxConnectTries c
   \<and> connectDeadline (snd (runTask projectFolder task args port rs c)) = connectDeadline c"
  by (simp add: runTask_def Let_def runTask_frames_fields split: option.splits terminal.splits)

text \<open>
  C9, as amended. For every \<open>getBuild\<close> call made while the client holds a transport,
  whatever the stream delivers and however it terminates, the status text is set and the
  item shown before the stream is opened, no further show or hide happens while the
  stream runs, and the item is hidden as the last effect of the call, both when the call
  resolves with a build or with void and when the stream failed. The call changes no
  field of the client.
\<close>

theorem getBuild_indicator:
  assumes "grpcClient c = Some t"
  shows "(\<exists>mid. trace (snd (getBuild projectFolder s c)) =
             trace c @ [StatusBar_text (str ''$(sync~spin) Gradle: Refreshing Tasks''),
                        StatusBar_show, Rpc_getBuild t projectFolder] @ mid @ [StatusBar_hide]
           \<and> StatusBar_show \<notin> set mid \<and> StatusBar_hide \<notin> set mid)
         \<and> grpcClient (snd (getBuild projectFolder s c)) = grpcClient c
         \<and> connectTries (snd (getBuild projectFolder s c)) = connectTries c
         \<and> maxConnectTries (snd (getBuild projectFolder s c)) = maxConnectTries c
         \<and> connectDeadline (snd (getBuild projectFolder s c)) = connectDeadline c"
  using getBuild_trace_shape [OF assms] getBuild_fields by blast

theorem getBuild_indicator_witness:
  "grpcClient connected = Some 7
   \<and> trace (snd (getBuild [47] ([GB_PROGRESS (Progress [65]), GB_GET_BUILD_RESULT (Some (1 :: nat))],
                               on_end) connected))
       = trace connected @ [StatusBar_text (str ''$(sync~spin) Gradle: Refreshing Tasks''),
            StatusBar_show, Rpc_getBuild 7 [47],
            StatusBar_text (str ''$(sync~spin) Gradle: '' @ [65]), StatusBar_hide]
   \<and> connectTries (snd (getBuild [47]
         ([GB_PROGRESS (Progress [65]), GB_GET_BUILD_RESULT (Some (1 :: nat))], on_end) connected))
       = connectTries connected"
  using getBuild_indicator [where c = connected and t = 7 and projectFolder = "[47]"
      and s = "([GB_PROGRESS (Progress [65]), GB_GET_BUILD_RESULT (Some (1 :: nat))], on_end)"]
  by (simp add: connected_fields getBuild_def getBuild_onData_def handleProgress_def
        trim_def isWhiteSpace_def Let_def)

theorem getBuild_indicator_counterexample:
  "grpcClient constructor = None
   \<and> fst (getBuild (str ''/p'') ([] :: nat GetBuildReply list, on_end) constructor)
     = Rejected (nullMember ''getBuild'')
   \<and> trace (snd (getBuild (str ''/p'') ([] :: nat GetBuildReply list, on_end) constructor))
     = trace constructor @ [StatusBar_text (str ''$(sync~spin) Gradle: Refreshing Tasks''),
                            StatusBar_show]
   \<and> StatusBar_hide \<notin>
       set (trace (snd (getBuild (str ''/p'') ([] :: nat GetBuildReply list, on_end) constructor)))"
  by (simp add: getBuild_def Let_def constructor_fields)

section \<open>Output frames of a task run\<close>

lemma runTask_frames_outputs:
  "[out. OnOutput out \<leftarrow> trace (foldl (\<lambda>c f. runTask_onData f c) c fs)]
     = [out. OnOutput out \<leftarrow> trace c] @ [out. RT_OUTPUT out \<leftarrow> fs]"
  by (induction fs arbitrary: c)
     (auto simp: runTask_onData_def handleProgress_def handleRunTaskCancelled_def Let_def
        split: RunTaskReply.splits)

lemma runTask_frames_logs:
  "filter isLog (trace (foldl (\<lambda>c f. runTask_onData f c) c fs))
     = filter isLog (trace c)
       @ [Logger_info (str ''Task cancelled: '' @ cancelled_getMessage x). RT_CANCELLED x \<leftarrow> fs]"
  by (induction fs arbitrary: c)
     (auto simp: runTask_onData_def handleProgress_def handleRunTaskCancelled_def Let_def
        split: RunTaskReply.splits)

text \<open>
  C4, as amended. During a \<open>runTask\<close> call on a held transport every Output frame is
  handed, as received, to the caller's \<open>onOutput\<close> sink, once and in the order of
  arrival. The client writes no log entry for it: its log entries of the call are one
  entry per Cancelled frame and the closing entry (completion or stream error).
\<close>

theorem runTask_outputs_to_caller:
  assumes "grpcClient c = Some t"
  shows "[out. OnOutput out \<leftarrow> trace (snd (runTask projectFolder task args port (fs, tm) c))]
           = [out. OnOutput out \<leftarrow> trace c] @ [out. RT_OUTPUT out \<leftarrow> fs]
         \<and> filter isLog (trace (snd (runTask projectFolder task args port (fs, tm) c)))
           = filter isLog (trace c)
             @ [Logger_info (str ''Task cancelled: '' @ cancelled_getMessage x).
                  RT_CANCELLED x \<leftarrow> fs]
             @ [case tm of
                  on_end \<Rightarrow> Logger_info (str ''Completed task '' @ script task)
                | on_error err \<Rightarrow>
                    Logger_error (str ''Error running task: '' @ details_or_message err)]"
  using assms
  by (cases tm)
     (simp_all add: runTask_def Let_def runTask_frames_outputs runTask_frames_logs)

theorem runTask_outputs_to_caller_witness:
  "grpcClient connected = Some 7
   \<and> [out. OnOutput out \<leftarrow> trace (snd (runTask [47] \<lparr>script = [98], javaDebug = False\<rparr> [] None
         ([RT_OUTPUT (Output STDOUT [66]), RT_OUTPUT (Output STDERR [32])], on_end) connected))]
       = [Output STDOUT [66], Output STDERR [32]]
   \<and> filter isLog (trace (snd (runTask [47] \<lparr>script = [98], javaDebug = False\<rparr> [] None
         ([RT_OUTPUT (Output STDOUT [66]), RT_OUTPUT (Output STDERR [32])], on_end) connected)))
       = filter isLog (trace connected) @ [Logger_info (str ''Completed task '' @ [98])]"
  using runTask_outputs_to_caller [where c = connected and t = 7 and projectFolder = "[47]"
      and task = "\<lparr>script = [98], javaDebug = False\<rparr>" and args = "[]" and port = None
      and fs = "[RT_OUTPUT (Output STDOUT [66]), RT_OUTPUT (Output STDERR [32])]"
      and tm = on_end]
  by (simp add: connected_fields)

theorem runTask_output_counterexample:
  "OnOutput (Output STDOUT [66]) \<in>
     set (trace (snd (runTask [47] \<lparr>script = [98], javaDebug = False\<rparr> [] None
                        ([RT_OUTPUT (Output STDOUT [66])], on_end) connected)))
   \<and> Logger_info [66] \<notin>
     set (trace (snd (runTask [47] \<lparr>script = [98], javaDebug = False\<rparr> [] None
                        ([RT_OUTPUT (Output STDOUT [66])], on_end) connected)))"
  by (simp add: runTask_def runTask_onData_def Let_def connected_fields str_def)

section \<open>The connect chain\<close>

lemma later_failing: "later (failing tr e) = failing (\<lambda>n. tr (Suc n)) (\<lambda>n. e (Suc n))"
  by (simp add: later_def failing_def)

lemma failing_0: "failing tr e 0 = ReadyCallback (tr 0) (Some (e 0))"
  by (simp add: failing_def)

lemma connectToServer_failing_step:
  "connectToServer (failing tr e) c =
     (if connectTries c < maxConnectTries c
      then connectToServer (failing (\<lambda>n. tr (Suc n)) (\<lambda>n. e (Suc n)))
             (emit (Close (tr 0))
                (emit (WaitForReady (tr 0) (connectDeadline c))
                   (emit (New_GrpcClient (tr 0))
                      (c\<lparr>grpcClient := Some (tr 0), connectTries := connectTries c + 1\<rparr>))))
      else emit Server_showRestartMessage
             (emit (Logger_error (str ''Error connecting to gradle server: '' @ message (e 0)))
                (emit (WaitForReady (tr 0) (connectDeadline c))
                   (emit (New_GrpcClient (tr 0)) (c\<lparr>grpcClient := Some (tr 0)\<rparr>)))))"
  by (subst connectToServer.simps)
     (simp add: later_failing handleClientReady.simps handleConnectError.simps Let_def
        emit_def failing_0)

lemma occurrences_emit [simp]:
  "occurrences e (emit e' c) = occurrences e c + (if e' = e then 1 else 0)"
  by (simp add: occurrences_def)

lemma connectAttempts_emit [simp]:
  "connectAttempts (emit e c) = connectAttempts c + (if isConnectAttempt e then 1 else 0)"
  by (simp add: connectAttempts_def)

lemma connectToServer_failing:
  "n = maxConnectTries c - connectTries c \<Longrightarrow>
     connectAttempts (connectToServer (failing tr e) c) = connectAttempts c + n + 1
     \<and> occurrences Server_showRestartMessage (connectToServer (failing tr e) c)
         = occurrences Server_showRestartMessage c + 1
     \<and> last (trace (connectToServer (failing tr e) c)) = Server_showRestartMessage
     \<and> grpcClient (connectToServer (failing tr e) c) = Some (tr n)
     \<and> connectTries (connectToServer (failing tr e) c) = max (connectTries c) (maxConnectTries c)
     \<and> maxConnectTries (connectToServer (failing tr e) c) = maxConnectTries c"
proof (induction n arbitrary: c tr e)
  case 0
  then have "\<not> connectTries c < maxConnectTries c"
    by simp
  then show ?case
    using 0 by (subst (1 2 3 4 5 6) connectToServer_failing_step) (simp add: connectAttempts_def occurrences_def)
next
  case (Suc n)
  then have lt: "connectTries c < maxConnectTries c"
    by simp
  define c2 where "c2 = emit (Close (tr 0))
                (emit (WaitForReady (tr 0) (connectDeadline c))
                   (emit (New_GrpcClient (tr 0))
                      (c\<lparr>grpcClient := Some (tr 0), connectTries := connectTries c + 1\<rparr>)))"
  have step: "connectToServer (failing tr e) c
                = connectToServer (failing (\<lambda>n. tr (Suc n)) (\<lambda>n. e (Suc n))) c2"
    using lt by (subst connectToServer_failing_step) (simp add: c2_def)
  have n: "n = maxConnectTries c2 - connectTries c2"
    using Suc.prems by (simp add: c2_def)
  have c2: "connectAttempts c2 = connectAttempts c + 1"
    "occurrences Server_showRestartMessage c2 = occurrences Server_showRestartMessage c"
    "connectTries c2 = connectTries c + 1" "maxConnectTries c2 = maxConnectTries c"
    by (simp_all add: c2_def connectAttempts_def occurrences_def)
  show ?case
    unfolding step using Suc.IH [OF n, of "\<lambda>n. tr (Suc n)" "\<lambda>n. e (Suc n)"] c2 lt
    by simp
qed

lemma handleServerReady_failing:
  "connectAttempts (handleServerReady (failing tr e) c)
       = connectAttempts c + (maxConnectTries c - connectTries c) + 1
   \<and> occurrences Server_showRestartMessage (handleServerReady (failing tr e) c)
       = occurrences Server_showRestartMessage c + 1
   \<and> last (trace (handleServerReady (failing tr e) c)) = Server_showRestartMessage
   \<and> connectTries (handleServerReady (failing tr e) c) = max (connectTries c) (maxConnectTries c)"
  using connectToServer_failing [of "maxConnectTries c - connectTries c"
      "emit (Logger_debug (str ''Gradle client connecting to server''))
         (emit StatusBar_show
            (emit (StatusBar_text (str ''$(sync~spin) Gradle: Connecting'')) c))" tr e]
  by (simp add: handleServerReady_def Let_def)

text \<open>
  C1, as amended. With \<open>maxConnectTries = 5\<close>, no retry made so far, and an
  environment in which every connect attempt obtains its transport and then fails to
  become ready, the client attempts to connect exactly 6 times, the first attempt and
  5 retries, before it raises the fatal signal; it invokes the restart prompt exactly
  once, and the prompt is the last thing it does: no further attempt follows.
\<close>

theorem connect_attempts_before_fatal:
  assumes "connectTries c = 0" and "maxConnectTries c = 5"
  shows "connectAttempts (handleServerReady (failing tr e) c) = connectAttempts c + 6
         \<and> occurrences Server_showRestartMessage (handleServerReady (failing tr e) c)
             = occurrences Server_showRestartMessage c + 1
         \<and> last (trace (handleServerReady (failing tr e) c)) = Server_showRestartMessage
         \<and> connectTries (handleServerReady (failing tr e) c) = 5"
  using handleServerReady_failing [of tr e c] assms by simp

theorem connect_attempts_before_fatal_witness:
  "connectTries constructor = 0 \<and> maxConnectTries constructor = 5
   \<and> connectAttempts (handleServerReady unreachable constructor) = 6
   \<and> occurrences Server_showRestartMessage (handleServerReady unreachable constructor) = 1
   \<and> last (trace (handleServerReady unreachable constructor)) = Server_showRestartMessage"
  using connect_attempts_before_fatal [of constructor id
      "\<lambda>n. OtherError (str ''Failed to connect before the deadline'')"]
  by (simp add: constructor_fields unreachable_def connectAttempts_def occurrences_def)

theorem connect_attempts_counterexample:
  "maxConnectTries constructor = 5
   \<and> connectAttempts constructor = 0
   \<and> connectAttempts (handleServerReady unreachable constructor) = 6"
  using handleServerReady_failing [of id
      "\<lambda>n. OtherError (str ''Failed to connect before the deadline'')" constructor]
  by (simp add: constructor_fields unreachable_def connectAttempts_def)

section \<open>The retry counter\<close>

lemma connect_chain_mono:
  "connectTries c \<le> connectTries (connectToServer env c)
     \<and> maxConnectTries (connectToServer env c) = maxConnectTries c"
  "connectTries c \<le> connectTries (handleClientReady env r c)
     \<and> maxConnectTries (handleClientReady env r c) = maxConnectTries c"
  "connectTries c \<le> connectTries (handleConnectError env e c)
     \<and> maxConnectTries (handleConnectError env e c) = maxConnectTries c"
proof (induction env c and env r c and env e c
        rule: connectToServer_handleClientReady_handleConnectError.induct)
  case (1 env c)
  show ?case
  proof (cases "env 0")
    case (ConstructorThrows err)
    then show ?thesis
      by (subst (1 2) connectToServer.simps) (simp add: Let_def)
  next
    case (ReadyCallback t r)
    show ?thesis
      using 1 [OF ReadyCallback refl refl refl] ReadyCallback
      by (subst (1 2) connectToServer.simps) (simp add: Let_def)
  next
    case (CallbackPending t)
    then show ?thesis
      by (subst (1 2) connectToServer.simps) (simp add: Let_def)
  qed
next
  case (2 env r c)
  show ?case
  proof (cases r)
    case None
    then show ?thesis
      by (subst (1 2) handleClientReady.simps) (simp add: Let_def)
  next
    case (Some err)
    show ?thesis
      using 2 [OF Some] Some
      by (subst (1 2) handleClientReady.simps) simp
  qed
next
  case (3 env e c)
  show ?case
  proof (cases "connectTries c < maxConnectTries c")
    case True
    show ?thesis
      using 3 [OF True refl refl] True
      by (subst (1 2) handleConnectError.simps) (simp add: Let_def split: option.splits)
  next
    case False
    then show ?thesis
      by (subst (1 2) handleConnectError.simps) (simp add: Let_def)
  qed
qed

lemma dispose_fields:
  "grpcClient (dispose c) = grpcClient c \<and> connectTries (dispose c) = connectTries c
   \<and> maxConnectTries (dispose c) = maxConnectTries c"
  by (simp add: dispose_def Let_def split: option.splits)

lemma cancel_fields:
  "connectTries (snd (cancelRunTask projectFolder task cb c)) = connectTries c
   \<and> maxConnectTries (snd (cancelRunTask projectFolder task cb c)) = maxConnectTries c
   \<and> connectTries (snd (cancelRunTasks cb' c)) = connectTries c
   \<and> maxConnectTries (snd (cancelRunTasks cb' c)) = maxConnectTries c
   \<and> connectTries (snd (cancelGetBuilds cb' c)) = connectTries c
   \<and> maxConnectTries (snd (cancelGetBuilds cb' c)) = maxConnectTries c"
  by (simp add: cancelRunTask_def cancelRunTasks_def cancelGetBuilds_def Let_def
        split: option.splits)

lemma handleServerReady_mono:
  "connectTries c \<le> connectTries (handleServerReady env c)
   \<and> maxConnectTries (handleServerReady env c) = maxConnectTries c"
  using connect_chain_mono(1) [of
      "emit (Logger_debug (str ''Gradle client connecting to server''))
         (emit StatusBar_show
            (emit (StatusBar_text (str ''$(sync~spin) Gradle: Connecting'')) c))" env]
  by (simp add: handleServerReady_def Let_def)

lemma invoke_mono:
  "connectTries c \<le> connectTries (invoke k c) \<and> maxConnectTries (invoke k c) = maxConnectTries c"
  by (cases k)
     (simp_all add: handleServerReady_mono handleServerStop_def connect_chain_mono
        getBuild_fields runTask_fields cancel_fields dispose_fields)

lemma history_mono:
  "connectTries c \<le> connectTries (history calls c)
   \<and> maxConnectTries (history calls c) = maxConnectTries c"
proof (induction calls arbitrary: c)
  case Nil
  show ?case by (simp add: history_def)
next
  case (Cons k calls)
  have "history (k # calls) c = history calls (invoke k c)"
    by (simp add: history_def)
  then show ?case
    using Cons.IH [of "invoke k c"] invoke_mono [of c k] by simp
qed

lemma handleClientReady_exhausted:
  "maxConnectTries c \<le> connectTries c \<Longrightarrow>
     handleClientReady env (Some e) c =
       emit Server_showRestartMessage
         (emit (Logger_error (str ''Error connecting to gradle server: '' @ message e)) c)"
  by (simp add: handleClientReady.simps handleConnectError.simps Let_def)

text \<open>
  C10, as amended. Over every history of the client (server-ready and server-stop
  notifications, readiness callbacks and public calls, in any order and with any answers
  of the environment) the retry counter never decreases and the retry bound never
  changes; a successful readiness callback leaves the counter as it is, and a new
  server-ready episode does not lower it. So once the counter has reached the bound, at
  every later point a connect attempt that obtained its transport and failed to become
  ready logs the error and invokes the restart prompt, and does nothing else: no
  transport is closed and no further connect attempt is made.
\<close>

theorem connectTries_never_reset:
  "connectTries c \<le> connectTries (history calls c)
   \<and> maxConnectTries (history calls c) = maxConnectTries c
   \<and> connectTries (handleClientReady env None c) = connectTries c
   \<and> connectTries c \<le> connectTries (handleServerReady env c)
   \<and> (maxConnectTries c \<le> connectTries c \<longrightarrow>
        handleClientReady env (Some e) (history calls c) =
          emit Server_showRestartMessage
            (emit (Logger_error (str ''Error connecting to gradle server: '' @ message e))
               (history calls c)))
   \<and> (maxConnectTries c \<le> connectTries c \<and> env 0 = ReadyCallback t (Some e) \<longrightarrow>
        trace (handleServerReady env (history calls c)) =
          trace (history calls c)
          @ [StatusBar_text (str ''$(sync~spin) Gradle: Connecting''), StatusBar_show,
             Logger_debug (str ''Gradle client connecting to server''),
             New_GrpcClient t, WaitForReady t (connectDeadline (history calls c)),
             Logger_error (str ''Error connecting to gradle server: '' @ message e),
             Server_showRestartMessage])"
proof -
  have ex: "maxConnectTries (history calls c) \<le> connectTries (history calls c)"
    if "maxConnectTries c \<le> connectTries c"
    using that history_mono [of c calls] by simp
  have ready: "connectTries (handleClientReady env None c) = connectTries c"
    by (simp add: handleClientReady.simps Let_def)
  have again: "trace (handleServerReady env c') =
          trace c'
          @ [StatusBar_text (str ''$(sync~spin) Gradle: Connecting''), StatusBar_show,
             Logger_debug (str ''Gradle client connecting to server''),
             New_GrpcClient t, WaitForReady t (connectDeadline c'),
             Logger_error (str ''Error connecting to gradle server: '' @ message e),
             Server_showRestartMessage]"
    if "maxConnectTries c' \<le> connectTries c'" and "env 0 = ReadyCallback t (Some e)" for c'
    using that
    by (simp add: handleServerReady_def connectToServer.simps handleClientReady_exhausted Let_def)
  show ?thesis
    using history_mono [of c calls] handleServerReady_mono [of c env] ready ex again
    by (simp add: handleClientReady_exhausted)
qed

theorem connectTries_never_reset_witness:
  "maxConnectTries (handleServerReady unreachable constructor)
     \<le> connectTries (handleServerReady unreachable constructor)
   \<and> unreachable 0
       = ReadyCallback 0 (Some (OtherError (str ''Failed to connect before the deadline'')))
   \<and> connectTries (history [Dispose :: nat call] (handleServerReady unreachable constructor)) = 5
   \<and> connectAttempts (handleServerReady unreachable
        (history [Dispose :: nat call] (handleServerReady unreachable constructor)))
       = connectAttempts (history [Dispose :: nat call]
           (handleServerReady unreachable constructor)) + 1"
proof -
  define c where "c = handleServerReady unreachable constructor"
  have tries: "connectTries c = 5" "maxConnectTries c = 5"
    using handleServerReady_failing [of id
        "\<lambda>n. OtherError (str ''Failed to connect before the deadline'')" constructor]
      handleServerReady_mono [of constructor unreachable]
    by (simp_all add: c_def unreachable_def constructor_fields)
  have first: "unreachable 0
       = ReadyCallback 0 (Some (OtherError (str ''Failed to connect before the deadline'')))"
    by (simp add: unreachable_def failing_def)
  have disposed: "connectTries (history [Dispose :: nat call] c) = 5"
    by (simp add: history_def dispose_fields tries)
  have "trace (handleServerReady unreachable (history [Dispose :: nat call] c)) =
          trace (history [Dispose :: nat call] c)
          @ [StatusBar_text (str ''$(sync~spin) Gradle: Connecting''), StatusBar_show,
             Logger_debug (str ''Gradle client connecting to server''),
             New_GrpcClient 0, WaitForReady 0 (connectDeadline (history [Dispose :: nat call] c)),
             Logger_error (str ''Error connecting to gradle server: ''
                @ message (OtherError (str ''Failed to connect before the deadline''))),
             Server_showRestartMessage]"
    using connectTries_never_reset [where c = c and calls = "[Dispose :: nat call]"
        and env = unreachable and t = 0
        and e = "OtherError (str ''Failed to connect before the deadline'')"]
      tries first
    by simp
  then have "connectAttempts (handleServerReady unreachable (history [Dispose :: nat call] c))
       = connectAttempts (history [Dispose :: nat call] c) + 1"
    by (simp add: connectAttempts_def)
  then show ?thesis
    using tries first disposed by (simp add: c_def)
qed

theorem constructor_failure_counterexample:
  "maxConnectTries (handleServerReady unreachable constructor)
     \<le> connectTries (handleServerReady unreachable constructor)
   \<and> throwing 0 = ConstructorThrows (OtherError (str ''Invalid target''))
   \<and> trace (handleServerReady throwing (handleServerReady unreachable constructor))
       = trace (handleServerReady unreachable constructor)
         @ [StatusBar_text (str ''$(sync~spin) Gradle: Connecting''), StatusBar_show,
            Logger_debug (str ''Gradle client connecting to server''),
            Logger_error (str ''Unable to construct the gRPC client: ''
                            @ message (OtherError (str ''Invalid target''))),
            StatusBar_hide]
   \<and> occurrences Server_showRestartMessage
         (handleServerReady throwing (handleServerReady unreachable constructor))
       = occurrences Server_showRestartMessage (handleServerReady unreachable constructor)"
proof -
  define c where "c = handleServerReady unreachable constructor"
  have tries: "maxConnectTries c \<le> connectTries c"
    using handleServerReady_failing [of id
        "\<lambda>n. OtherError (str ''Failed to connect before the deadline'')" constructor]
      handleServerReady_mono [of constructor unreachable]
    by (simp add: c_def unreachable_def constructor_fields)
  have first: "throwing 0 = ConstructorThrows (OtherError (str ''Invalid target''))"
    by (simp add: throwing_def)
  have run: "handleServerReady throwing c =
      emit StatusBar_hide
        (emit (Logger_error (str ''Unable to construct the gRPC client: ''
                               @ message (OtherError (str ''Invalid target''))))
           (emit (Logger_debug (str ''Gradle client connecting to server''))
              (emit StatusBar_show
                 (emit (StatusBar_text (str ''$(sync~spin) Gradle: Connecting'')) c))))"
    by (simp add: handleServerReady_def connectToServer.simps first Let_def)
  have "trace (handleServerReady throwing c)
       = trace c
         @ [StatusBar_text (str ''$(sync~spin) Gradle: Connecting''), StatusBar_show,
            Logger_debug (str ''Gradle client connecting to server''),
            Logger_error (str ''Unable to construct the gRPC client: ''
                            @ message (OtherError (str ''Invalid target''))),
            StatusBar_hide]"
    and "occurrences Server_showRestartMessage (handleServerReady throwing c)
       = occurrences Server_showRestartMessage c"
    unfolding run by simp_all
  then show ?thesis
    using tries first by (simp add: c_def)
qed

section \<open>Cancellation bookkeeping\<close>

text \<open>
  C2, as amended. Each trigger invokes the task registry exactly once for its task
  identity: the reply to \<open>cancelRunTask\<close> with \<open>taskRunning = false\<close> once with the
  task and project folder of the call, and every Cancelled frame of a task stream once
  with the task and project directory of the frame; a reply with \<open>taskRunning = true\<close>
  invokes nothing. The client keeps no marker of identities already notified, so a
  reply and a frame for the same identity invoke the registry twice.
\<close>

theorem registry_once_per_trigger:
  assumes "grpcClient c = Some t"
  shows "occurrences (HandleCancelledTask task projectFolder)
           (snd (cancelRunTask projectFolder task
                   (None, Some \<lparr>crt_getMessage = m, crt_getTaskRunning = False\<rparr>) c))
           = occurrences (HandleCancelledTask task projectFolder) c + 1
         \<and> occurrences (HandleCancelledTask task projectFolder)
           (snd (cancelRunTask projectFolder task
                   (None, Some \<lparr>crt_getMessage = m, crt_getTaskRunning = True\<rparr>) c))
           = occurrences (HandleCancelledTask task projectFolder) c
         \<and> occurrences (HandleCancelledTask task projectFolder)
           (runTask_onData (RT_CANCELLED (Cancelled task projectFolder m')) c)
           = occurrences (HandleCancelledTask task projectFolder) c + 1
         \<and> occurrences (HandleCancelledTask task projectFolder)
           (runTask_onData (RT_CANCELLED (Cancelled task projectFolder m'))
              (snd (cancelRunTask projectFolder task
                      (None, Some \<lparr>crt_getMessage = m, crt_getTaskRunning = False\<rparr>) c)))
           = occurrences (HandleCancelledTask task projectFolder) c + 2"
  using assms
  by (simp add: cancelRunTask_def runTask_onData_def handleRunTaskCancelled_def Let_def)

theorem registry_once_per_trigger_witness:
  "grpcClient connected = Some 7
   \<and> occurrences (HandleCancelledTask [116] [47])
       (snd (cancelRunTask [47] [116]
               (None, Some \<lparr>crt_getMessage = [109], crt_getTaskRunning = False\<rparr>) connected)) = 1
   \<and> occurrences (HandleCancelledTask [116] [47])
       (snd (cancelRunTask [47] [116]
               (None, Some \<lparr>crt_getMessage = [109], crt_getTaskRunning = True\<rparr>) connected)) = 0
   \<and> occurrences (HandleCancelledTask [116] [47])
       (runTask_onData (RT_CANCELLED (Cancelled [116] [47] [115])) connected) = 1"
proof -
  have h: "grpcClient connected = Some 7"
    by (simp add: connected_fields)
  have z: "occurrences (HandleCancelledTask [116] [47]) connected = 0"
    by (simp add: occurrences_def connected_fields)
  show ?thesis
    using h z
      registry_once_per_trigger [OF h, where task = "[116]" and projectFolder = "[47]"
        and m = "[109]" and m' = "[115]"]
    by simp
qed

theorem registry_twice_counterexample:
  "occurrences (HandleCancelledTask (str ''t1'') (str ''/p''))
     (runTask_onData (RT_CANCELLED (Cancelled (str ''t1'') (str ''/p'') (str ''stopped'')))
        (snd (cancelRunTask (str ''/p'') (str ''t1'')
                (None, Some \<lparr>crt_getMessage = str ''not running'', crt_getTaskRunning = False\<rparr>)
                connected))) = 2"
  by (simp add: cancelRunTask_def runTask_onData_def handleRunTaskCancelled_def Let_def
        connected_fields occurrences_def)

section \<open>Disposal\<close>

text \<open>
  C7, as amended. \<open>dispose\<close> has no failing path of its own and keeps the transport
  handle in place. Each call requests the close of the held transport, when there is
  one, and disposes the connected emitter; so two calls on a client that holds a
  transport request its close twice, once per call, and the second call repeats the
  effects of the first.
\<close>

theorem dispose_twice:
  "(grpcClient c = Some t \<longrightarrow>
      trace (dispose (dispose c)) =
        trace c @ [Close t, OnConnect_dispose, Close t, OnConnect_dispose])
   \<and> (grpcClient c = None \<longrightarrow>
      trace (dispose (dispose c)) = trace c @ [OnConnect_dispose, OnConnect_dispose])
   \<and> grpcClient (dispose c) = grpcClient c
   \<and> connectTries (dispose c) = connectTries c
   \<and> maxConnectTries (dispose c) = maxConnectTries c"
  by (cases "grpcClient c") (simp_all add: dispose_def Let_def)

theorem dispose_twice_witness:
  "grpcClient connected = Some 7
   \<and> trace (dispose (dispose connected)) =
       trace connected @ [Close 7, OnConnect_dispose, Close 7, OnConnect_dispose]
   \<and> grpcClient constructor = None
   \<and> trace (dispose (dispose constructor)) =
       trace constructor @ [OnConnect_dispose, OnConnect_dispose]"
  using dispose_twice [of connected 7] dispose_twice [of constructor 0]
  by (simp add: connected_fields constructor_fields)

theorem dispose_twice_counterexample:
  "occurrences (Close 7) (dispose connected) = 1
   \<and> occurrences (Close 7) (dispose (dispose connected)) = 2"
  by (simp add: dispose_def Let_def connected_fields occurrences_def)

section \<open>Operations without a transport\<close>




lemma message_nullMember [simp]: "details_or_message (nullMember m) = message (nullMember m)"
  by (simp add: details_or_message_def nullMember_def)




end
